theory Spec2Isabelle
  imports Complex_Main
begin

section \<open>ECMAScript numbers\<close>

text \<open>
  The utility \<^verbatim>\<open>isLinkBelowLimit.js\<close> computes with ECMAScript Numbers. A Number is
  modelled as a finite value, one of the two infinities, or NaN. Arithmetic on finite
  values is exact: rounding and overflow are not modelled, and the two zeros are not
  told apart (a zero divisor is read as \<open>+0\<close>). The special values follow IEEE 754:
  NaN is absorbing, \<open>Infinity - Infinity\<close> and \<open>0 * Infinity\<close> are NaN, and every
  comparison with NaN is false.
\<close>

datatype number = NaN | Fin real | PInf | NInf

instantiation number :: plus
begin

fun plus_number :: "number \<Rightarrow> number \<Rightarrow> number" where
  "NaN + _ = NaN"
| "_ + NaN = NaN"
| "Fin a + Fin b = Fin (a + b)"
| "PInf + NInf = NaN"
| "NInf + PInf = NaN"
| "PInf + _ = PInf"
| "_ + PInf = PInf"
| "NInf + _ = NInf"
| "_ + NInf = NInf"

instance ..

end

instantiation number :: minus
begin

fun minus_number :: "number \<Rightarrow> number \<Rightarrow> number" where
  "NaN - _ = NaN"
| "_ - NaN = NaN"
| "Fin a - Fin b = Fin (a - b)"
| "PInf - PInf = NaN"
| "NInf - NInf = NaN"
| "PInf - _ = PInf"
| "NInf - _ = NInf"
| "_ - PInf = NInf"
| "_ - NInf = PInf"

instance ..

end

instantiation number :: times
begin

fun times_number :: "number \<Rightarrow> number \<Rightarrow> number" where
  "NaN * _ = NaN"
| "_ * NaN = NaN"
| "Fin a * Fin b = Fin (a * b)"
| "Fin a * PInf = (if a = 0 then NaN else if 0 < a then PInf else NInf)"
| "Fin a * NInf = (if a = 0 then NaN else if 0 < a then NInf else PInf)"
| "PInf * Fin b = (if b = 0 then NaN else if 0 < b then PInf else NInf)"
| "NInf * Fin b = (if b = 0 then NaN else if 0 < b then NInf else PInf)"
| "PInf * PInf = PInf"
| "PInf * NInf = NInf"
| "NInf * PInf = NInf"
| "NInf * NInf = PInf"

instance ..

end

instantiation number :: inverse
begin

fun divide_number :: "number \<Rightarrow> number \<Rightarrow> number" where
  "divide_number NaN _ = NaN"
| "divide_number _ NaN = NaN"
| "divide_number (Fin a) (Fin b) =
     (if b \<noteq> 0 then Fin (a / b)
      else if a = 0 then NaN else if 0 < a then PInf else NInf)"
| "divide_number (Fin a) PInf = Fin 0"
| "divide_number (Fin a) NInf = Fin 0"
| "divide_number PInf (Fin b) = (if 0 \<le> b then PInf else NInf)"
| "divide_number NInf (Fin b) = (if 0 \<le> b then NInf else PInf)"
| "divide_number _ _ = NaN"

definition inverse_number :: "number \<Rightarrow> number" where
  "inverse_number x = divide (Fin 1) x"

instance ..

end

instantiation number :: ord
begin

fun less_number :: "number \<Rightarrow> number \<Rightarrow> bool" where
  "Fin a < Fin b \<longleftrightarrow> a < b"
| "Fin a < PInf \<longleftrightarrow> True"
| "NInf < Fin b \<longleftrightarrow> True"
| "NInf < PInf \<longleftrightarrow> True"
| "(_ :: number) < _ \<longleftrightarrow> False"

fun less_eq_number :: "number \<Rightarrow> number \<Rightarrow> bool" where
  "Fin a \<le> Fin b \<longleftrightarrow> a \<le> b"
| "Fin a \<le> PInf \<longleftrightarrow> True"
| "NInf \<le> Fin b \<longleftrightarrow> True"
| "NInf \<le> PInf \<longleftrightarrow> True"
| "NInf \<le> NInf \<longleftrightarrow> True"
| "PInf \<le> PInf \<longleftrightarrow> True"
| "(_ :: number) \<le> _ \<longleftrightarrow> False"

instance ..

end

text \<open>\<^verbatim>\<open>Math.PI\<close>, \<^verbatim>\<open>Math.sin\<close> and \<^verbatim>\<open>Math.cos\<close>: NaN for a non-finite argument.\<close>

definition Math_PI :: number where
  "Math_PI = Fin pi"

fun Math_sin :: "number \<Rightarrow> number" where
  "Math_sin (Fin x) = Fin (sin x)"
| "Math_sin _ = NaN"

fun Math_cos :: "number \<Rightarrow> number" where
  "Math_cos (Fin x) = Fin (cos x)"
| "Math_cos _ = NaN"

text \<open>
  \<^verbatim>\<open>Boolean(v)\<close> for a value that is \<^verbatim>\<open>undefined\<close> (\<open>None\<close>) or a Number:
  \<^verbatim>\<open>undefined\<close>, NaN and zero are falsy, every other Number is truthy.
\<close>

fun Boolean :: "number option \<Rightarrow> bool" where
  "Boolean None = False"
| "Boolean (Some NaN) = False"
| "Boolean (Some (Fin x)) = (x \<noteq> 0)"
| "Boolean (Some PInf) = True"
| "Boolean (Some NInf) = True"

text \<open>The conversion of a boolean operand of \<^verbatim>\<open>>\<close> to a Number.\<close>

definition ToNumber :: "bool \<Rightarrow> number" where
  "ToNumber b = (if b then Fin 1 else Fin 0)"

section \<open>Data model\<close>

text \<open>
  An element carries \<^verbatim>\<open>y\<close>, \<^verbatim>\<open>width\<close>, \<^verbatim>\<open>height\<close>, \<^verbatim>\<open>rotationAngle\<close> and an optional
  \<^verbatim>\<open>link\<close> object with an optional \<^verbatim>\<open>url\<close> string. \<open>None\<close> stands for a property that
  is \<^verbatim>\<open>undefined\<close> or \<^verbatim>\<open>null\<close>, the two values at which \<^verbatim>\<open>?.\<close> short-circuits.
\<close>

record Link =
  url :: "string option"

record PositionedElement =
  y :: number
  width :: number
  height :: number
  rotationAngle :: number
  link :: "Link option"

text \<open>
  \<^verbatim>\<open>PAGE_WIDTH\<close>, \<^verbatim>\<open>PAGE_HEIGHT\<close> and \<^verbatim>\<open>FULLBLEED_RATIO\<close> are imported from the
  application's \<^verbatim>\<open>constants\<close> module. The utility does not define them: the three
  numeric literals are a parameter of everything below.
\<close>

record page_constants =
  PAGE_WIDTH :: real
  PAGE_HEIGHT :: real
  FULLBLEED_RATIO :: real

text \<open>Page dimensions and an aspect ratio are positive.\<close>

definition positive_constants :: "page_constants \<Rightarrow> bool" where
  "positive_constants c \<longleftrightarrow> 0 < PAGE_WIDTH c \<and> 0 < PAGE_HEIGHT c \<and> 0 < FULLBLEED_RATIO c"

text \<open>
  Modelled from the spec: the values of the \<^verbatim>\<open>constants\<close> module, which the utility only
  imports, as the spec's concrete scenario gives them (\<open>pageWidth = 412\<close>,
  \<open>pageHeight = 732\<close>, \<open>fullbleedRatio = 9/16\<close>).
\<close>

definition spec_constants :: page_constants where
  "spec_constants = \<lparr>PAGE_WIDTH = 412, PAGE_HEIGHT = 732, FULLBLEED_RATIO = 9 / 16\<rparr>"

section \<open>The danger-zone check\<close>

definition FULLBLEED_HEIGHT :: "page_constants \<Rightarrow> number" where
  "FULLBLEED_HEIGHT c = Fin (PAGE_WIDTH c) / Fin (FULLBLEED_RATIO c)"

definition DANGER_ZONE_HEIGHT :: "page_constants \<Rightarrow> number" where
  "DANGER_ZONE_HEIGHT c = (FULLBLEED_HEIGHT c - Fin (PAGE_HEIGHT c)) / Fin 2"

definition getYCoordinatesByAngle :: "PositionedElement \<Rightarrow> number list" where
  "getYCoordinatesByAngle element =
     (let radians = (rotationAngle element * Math_PI) / Fin 180 in
      [ \<comment> \<open>Upper left\<close>
        y element +
          height element +
          (width element / Fin (- 2)) * Math_sin radians +
          (height element / Fin (- 2)) * Math_cos radians,
        \<comment> \<open>Upper right\<close>
        y element +
          height element +
          (width element / Fin 2) * Math_sin radians +
          (height element / Fin (- 2)) * Math_cos radians,
        \<comment> \<open>Bottom right\<close>
        y element +
          height element +
          (width element / Fin 2) * Math_sin radians +
          (height element / Fin 2) * Math_cos radians,
        \<comment> \<open>Bottom left\<close>
        y element +
          height element +
          (width element / Fin (- 2)) * Math_sin radians +
          (height element / Fin 2) * Math_cos radians ])"

text \<open>
  \<^verbatim>\<open>element.link?.url?.length\<close>: \<^verbatim>\<open>undefined\<close> when the link or its url is absent,
  the length of the url otherwise.
\<close>

definition linkUrlLength :: "PositionedElement \<Rightarrow> number option" where
  "linkUrlLength element =
     (case link element of
        None \<Rightarrow> None
      | Some l \<Rightarrow> (case url l of None \<Rightarrow> None | Some u \<Rightarrow> Some (Fin (real (length u)))))"

datatype error = TypeError

text \<open>
  The argument is \<open>None\<close> when the caller passes \<^verbatim>\<open>undefined\<close> or \<^verbatim>\<open>null\<close>: the property
  access \<^verbatim>\<open>element.link\<close> then throws a TypeError. The guard is read as ECMAScript
  parses it, \<^verbatim>\<open>(!element.link?.url?.length) > 0\<close>: the negation binds tighter than the
  comparison, and its boolean result is converted to a Number.
\<close>

definition isLinkBelowLimit :: "page_constants \<Rightarrow> PositionedElement option \<Rightarrow> error + bool" where
  "isLinkBelowLimit c arg =
     (case arg of
        None \<Rightarrow> Inl TypeError
      | Some element \<Rightarrow>
          if Fin 0 < ToNumber (\<not> Boolean (linkUrlLength element)) then Inr False
          else
            let limit = FULLBLEED_HEIGHT c * Fin 0.8;
                points = getYCoordinatesByAngle element
            in Inr (Boolean (find (\<lambda>y. limit < y + DANGER_ZONE_HEIGHT c) points)))"

section \<open>Vocabulary of the specification\<close>

text \<open>The comparison that \<^verbatim>\<open>find\<close> applies to a corner: \<^verbatim>\<open>y + DANGER_ZONE_HEIGHT > limit\<close>.\<close>

abbreviation exceedsLimit :: "page_constants \<Rightarrow> number \<Rightarrow> bool" where
  "exceedsLimit c cornerY \<equiv> FULLBLEED_HEIGHT c * Fin 0.8 < cornerY + DANGER_ZONE_HEIGHT c"

text \<open>The element's link is present and its url is present and not empty.\<close>

definition hasLinkUrl :: "PositionedElement \<Rightarrow> bool" where
  "hasLinkUrl element =
     (case link element of
        None \<Rightarrow> False
      | Some l \<Rightarrow> (case url l of None \<Rightarrow> False | Some u \<Rightarrow> u \<noteq> []))"


text \<open>
  The elements of the specification's concrete scenarios: a linked element near the bottom
  of the page and a linked element at its top. A third one has neither width nor height.
\<close>

definition element_near_bottom :: PositionedElement where
  "element_near_bottom =
     \<lparr>y = Fin 600, width = Fin 100, height = Fin 100, rotationAngle = Fin 0,
      link = Some \<lparr>url = Some ''https://example.com''\<rparr>\<rparr>"

definition element_at_top :: PositionedElement where
  "element_at_top =
     \<lparr>y = Fin 0, width = Fin 100, height = Fin 20, rotationAngle = Fin 0,
      link = Some \<lparr>url = Some ''https://example.com''\<rparr>\<rparr>"

definition element_at_origin :: PositionedElement where
  "element_at_origin =
     \<lparr>y = Fin 0, width = Fin 0, height = Fin 0, rotationAngle = Fin 0,
      link = Some \<lparr>url = Some ''https://example.com''\<rparr>\<rparr>"

text \<open>
  Constants that are not positive, under which the danger-zone height \<open>1\<close> lies above the
  limit \<open>0\<close>: no page has them, they only instantiate the parameter.
\<close>

definition degenerate_constants :: page_constants where
  "degenerate_constants = \<lparr>PAGE_WIDTH = 0, PAGE_HEIGHT = - 2, FULLBLEED_RATIO = 1\<rparr>"

section \<open>Arithmetic with the special values\<close>

lemma plus_NaN_right [simp]: "x + NaN = NaN" for x :: number
  by (cases x) simp_all

lemma times_NaN_right [simp]: "x * NaN = NaN" for x :: number
  by (cases x) simp_all

lemma divide_NaN_right [simp]: "x / NaN = NaN" for x :: number
  by (cases x) simp_all

lemma not_less_NaN [simp]: "\<not> x < NaN" "\<not> NaN < x" for x :: number
  by (cases x; simp)+

lemma plus_Fin_0 [simp]: "x + Fin 0 = x" for x :: number
  by (cases x) simp_all

section \<open>The guard and the search\<close>

text \<open>
  The guard \<^verbatim>\<open>!element.link?.url?.length > 0\<close> holds exactly when there is no link url
  to check: the negation yields \<^verbatim>\<open>true\<close> for \<^verbatim>\<open>undefined\<close> and for the length zero, and
  \<^verbatim>\<open>true > 0\<close> is \<^verbatim>\<open>1 > 0\<close>.
\<close>

lemma guard_iff:
  "Fin 0 < ToNumber (\<not> Boolean (linkUrlLength element)) \<longleftrightarrow> \<not> hasLinkUrl element"
  by (simp add: ToNumber_def linkUrlLength_def hasLinkUrl_def split: option.splits)

lemma isLinkBelowLimit_Some:
  "isLinkBelowLimit c (Some element) =
     Inr (hasLinkUrl element \<and>
          Boolean (find (exceedsLimit c) (getYCoordinatesByAngle element)))"
  by (simp add: isLinkBelowLimit_def guard_iff Let_def)

text \<open>Only a call without an element object reaches the error.\<close>

lemma isLinkBelowLimit_nullish: "isLinkBelowLimit c None = Inl TypeError"
  by (simp add: isLinkBelowLimit_def)

lemma Boolean_find:
  "(\<And>x. P x \<Longrightarrow> Boolean (Some x)) \<Longrightarrow> Boolean (find P xs) = (\<exists>x\<in>set xs. P x)"
  by (induction xs) auto

text \<open>A corner that exceeds the limit is no NaN: it is truthy unless it is zero.\<close>

lemma Boolean_exceeding: "exceedsLimit c x \<Longrightarrow> Boolean (Some x) \<longleftrightarrow> x \<noteq> Fin 0"
  by (cases x) auto

text \<open>
  With positive page constants the three derived quantities are finite, and the limit lies
  above the danger-zone height, so a corner at zero never exceeds it.
\<close>

lemma positive_limit:
  assumes "positive_constants c"
  shows "FULLBLEED_HEIGHT c = Fin (PAGE_WIDTH c / FULLBLEED_RATIO c)"
    and "DANGER_ZONE_HEIGHT c = Fin ((PAGE_WIDTH c / FULLBLEED_RATIO c - PAGE_HEIGHT c) / 2)"
    and "FULLBLEED_HEIGHT c * Fin 0.8 = Fin (PAGE_WIDTH c / FULLBLEED_RATIO c * 0.8)"
  using assms
  by (simp_all add: positive_constants_def FULLBLEED_HEIGHT_def DANGER_ZONE_HEIGHT_def)

lemma zero_not_exceeding:
  assumes "positive_constants c"
  shows "\<not> exceedsLimit c (Fin 0)"
proof -
  have "0 < PAGE_WIDTH c / FULLBLEED_RATIO c" "0 < PAGE_HEIGHT c"
    using assms by (simp_all add: positive_constants_def)
  then show ?thesis
    by (simp add: positive_limit [OF assms])
qed

lemma exceeding_truthy:
  assumes "positive_constants c" and "exceedsLimit c x"
  shows "Boolean (Some x)"
proof (cases x)
  case (Fin v)
  with assms zero_not_exceeding [OF assms(1)] show ?thesis
    by (cases "v = 0") auto
qed (use assms in simp_all)

lemma NaN_corners:
  assumes "y element = NaN \<or> width element = NaN \<or> height element = NaN \<or>
           rotationAngle element = NaN"
  shows "getYCoordinatesByAngle element = [NaN, NaN, NaN, NaN]"
  using assms by (auto simp: getYCoordinatesByAngle_def)


text \<open>The definitions that evaluate the check on a concrete element.\<close>

lemmas scenario_defs =
  hasLinkUrl_def getYCoordinatesByAngle_def Math_PI_def FULLBLEED_HEIGHT_def
  DANGER_ZONE_HEIGHT_def spec_constants_def degenerate_constants_def positive_constants_def
  element_near_bottom_def element_at_top_def element_at_origin_def Let_def

section \<open>Properties of the danger-zone check\<close>

text \<open>
  Claim C1. For an element whose link is present with a non-empty url,
  \<^verbatim>\<open>isLinkBelowLimit\<close> returns \<^verbatim>\<open>true\<close> if and only if at least one of the four corner
  Y-values of \<^verbatim>\<open>getYCoordinatesByAngle\<close>, after adding the danger-zone height
  \<open>(fullbleedHeight - pageHeight) / 2\<close>, exceeds the limit \<open>fullbleedHeight * 0.8\<close>;
  otherwise it returns \<^verbatim>\<open>false\<close>. The page constants are positive, as the dimensions
  of a page are; the numeric fields of the element are arbitrary Numbers.
\<close>

theorem isLinkBelowLimit_iff_corner_exceeds:
  assumes "positive_constants c" and "hasLinkUrl element"
  shows "isLinkBelowLimit c (Some element) =
           Inr (\<exists>cornerY \<in> set (getYCoordinatesByAngle element). exceedsLimit c cornerY) \<and>
         DANGER_ZONE_HEIGHT c = Fin ((PAGE_WIDTH c / FULLBLEED_RATIO c - PAGE_HEIGHT c) / 2) \<and>
         FULLBLEED_HEIGHT c * Fin 0.8 = Fin (PAGE_WIDTH c / FULLBLEED_RATIO c * 0.8)"
proof -
  have "Boolean (find (exceedsLimit c) (getYCoordinatesByAngle element)) =
          (\<exists>cornerY \<in> set (getYCoordinatesByAngle element). exceedsLimit c cornerY)"
    by (rule Boolean_find) (rule exceeding_truthy [OF assms(1)])
  with assms(2) have "isLinkBelowLimit c (Some element) =
      Inr (\<exists>cornerY \<in> set (getYCoordinatesByAngle element). exceedsLimit c cornerY)"
    unfolding isLinkBelowLimit_Some by simp
  with positive_limit(2,3) [OF assms(1)] show ?thesis
    by blast
qed

theorem isLinkBelowLimit_iff_corner_exceeds_witness:
  "positive_constants spec_constants \<and>
   hasLinkUrl element_near_bottom \<and>
   isLinkBelowLimit spec_constants (Some element_near_bottom) = Inr True \<and>
   (\<exists>cornerY \<in> set (getYCoordinatesByAngle element_near_bottom).
      exceedsLimit spec_constants cornerY) \<and>
   hasLinkUrl element_at_top \<and>
   isLinkBelowLimit spec_constants (Some element_at_top) = Inr False \<and>
   \<not> (\<exists>cornerY \<in> set (getYCoordinatesByAngle element_at_top).
        exceedsLimit spec_constants cornerY)"
  using isLinkBelowLimit_iff_corner_exceeds [of spec_constants element_near_bottom]
    isLinkBelowLimit_iff_corner_exceeds [of spec_constants element_at_top]
  by (simp add: scenario_defs)


text \<open>
  Claim C3. For an element whose link is absent, or whose url is absent or has length
  zero, \<^verbatim>\<open>isLinkBelowLimit\<close> returns \<^verbatim>\<open>false\<close> whatever \<^verbatim>\<open>y\<close>, \<^verbatim>\<open>width\<close>, \<^verbatim>\<open>height\<close> and
  \<^verbatim>\<open>rotationAngle\<close> are. The guard is the check in the order: presence of the link, then
  presence of the url, then length greater than zero.
\<close>

theorem isLinkBelowLimit_without_url:
  "(Fin 0 < ToNumber (\<not> Boolean (linkUrlLength element)) \<longleftrightarrow>
      (case link element of
         None \<Rightarrow> True
       | Some l \<Rightarrow> (case url l of None \<Rightarrow> True | Some u \<Rightarrow> \<not> 0 < length u))) \<and>
   (link element = None \<or>
    (\<exists>l. link element = Some l \<and> (url l = None \<or> (\<exists>u. url l = Some u \<and> length u = 0))) \<longrightarrow>
      isLinkBelowLimit c (Some element) = Inr False)"
  by (auto simp: isLinkBelowLimit_Some guard_iff hasLinkUrl_def split: option.splits)

theorem isLinkBelowLimit_without_url_witness:
  "isLinkBelowLimit spec_constants (Some (element_near_bottom\<lparr>link := None\<rparr>)) = Inr False \<and>
   isLinkBelowLimit spec_constants
     (Some (element_near_bottom\<lparr>link := Some \<lparr>url = None\<rparr>\<rparr>)) = Inr False \<and>
   isLinkBelowLimit spec_constants
     (Some (element_near_bottom\<lparr>link := Some \<lparr>url = Some []\<rparr>\<rparr>)) = Inr False \<and>
   isLinkBelowLimit spec_constants (Some element_near_bottom) = Inr True"
  using
    isLinkBelowLimit_without_url [of "element_near_bottom\<lparr>link := None\<rparr>" spec_constants]
    isLinkBelowLimit_without_url
      [of "element_near_bottom\<lparr>link := Some \<lparr>url = None\<rparr>\<rparr>" spec_constants]
    isLinkBelowLimit_without_url
      [of "element_near_bottom\<lparr>link := Some \<lparr>url = Some []\<rparr>\<rparr>" spec_constants]
  by (simp add: isLinkBelowLimit_Some scenario_defs)




text \<open>
  Claim C6. With \<open>pageWidth = 412\<close>, \<open>pageHeight = 732\<close> and \<open>fullbleedRatio = 9/16\<close> (so
  the full-bleed height is \<open>6592/9\<close>, about 732.44, the danger-zone height \<open>2/9\<close>, about
  0.22, and the limit \<open>26368/45\<close>, about 585.96), an element with \<open>y = 600\<close>,
  \<open>width = 100\<close>, \<open>height = 100\<close>, \<open>rotationAngle = 0\<close> and a non-empty link url yields
  \<^verbatim>\<open>true\<close>, its bottom corners being at 750; the same geometry without a link yields
  \<^verbatim>\<open>false\<close>; and an unrotated element at \<open>y = 0\<close> with \<open>height = 20\<close> yields \<^verbatim>\<open>false\<close>,
  with or without a link and whatever its finite width.
\<close>

theorem isLinkBelowLimit_spec_scenarios:
  "FULLBLEED_HEIGHT spec_constants = Fin (6592 / 9) \<and>
   DANGER_ZONE_HEIGHT spec_constants = Fin (2 / 9) \<and>
   FULLBLEED_HEIGHT spec_constants * Fin 0.8 = Fin (26368 / 45) \<and>
   getYCoordinatesByAngle
       \<lparr>y = Fin 600, width = Fin 100, height = Fin 100, rotationAngle = Fin 0,
        link = Some \<lparr>url = Some (ch # u)\<rparr>\<rparr> =
     [Fin 650, Fin 650, Fin 750, Fin 750] \<and>
   isLinkBelowLimit spec_constants
       (Some \<lparr>y = Fin 600, width = Fin 100, height = Fin 100, rotationAngle = Fin 0,
              link = Some \<lparr>url = Some (ch # u)\<rparr>\<rparr>) = Inr True \<and>
   isLinkBelowLimit spec_constants
       (Some \<lparr>y = Fin 600, width = Fin 100, height = Fin 100, rotationAngle = Fin 0,
              link = None\<rparr>) = Inr False \<and>
   isLinkBelowLimit spec_constants
       (Some \<lparr>y = Fin 0, width = Fin w, height = Fin 20, rotationAngle = Fin 0,
              link = l\<rparr>) = Inr False"
  by (simp add: isLinkBelowLimit_Some scenario_defs)


text \<open>
  Claim C8. For an element with a present, non-empty link url and NaN in any of \<^verbatim>\<open>y\<close>,
  \<^verbatim>\<open>width\<close>, \<^verbatim>\<open>height\<close> or \<^verbatim>\<open>rotationAngle\<close>, \<^verbatim>\<open>isLinkBelowLimit\<close> returns \<^verbatim>\<open>false\<close>: every
  corner is NaN, and no comparison of a corner against the limit holds.
\<close>

theorem isLinkBelowLimit_NaN:
  assumes "hasLinkUrl element"
    and "y element = NaN \<or> width element = NaN \<or> height element = NaN \<or>
         rotationAngle element = NaN"
  shows "getYCoordinatesByAngle element = [NaN, NaN, NaN, NaN] \<and>
         \<not> (\<exists>cornerY \<in> set (getYCoordinatesByAngle element). exceedsLimit c cornerY) \<and>
         isLinkBelowLimit c (Some element) = Inr False"
  using NaN_corners [OF assms(2)] by (simp add: isLinkBelowLimit_Some)

theorem isLinkBelowLimit_NaN_witness:
  "hasLinkUrl (element_near_bottom\<lparr>y := NaN\<rparr>) \<and>
   y (element_near_bottom\<lparr>y := NaN\<rparr>) = NaN \<and>
   getYCoordinatesByAngle (element_near_bottom\<lparr>y := NaN\<rparr>) = [NaN, NaN, NaN, NaN] \<and>
   isLinkBelowLimit spec_constants (Some (element_near_bottom\<lparr>y := NaN\<rparr>)) = Inr False \<and>
   hasLinkUrl (element_near_bottom\<lparr>rotationAngle := NaN\<rparr>) \<and>
   rotationAngle (element_near_bottom\<lparr>rotationAngle := NaN\<rparr>) = NaN \<and>
   getYCoordinatesByAngle (element_near_bottom\<lparr>rotationAngle := NaN\<rparr>) = [NaN, NaN, NaN, NaN] \<and>
   isLinkBelowLimit spec_constants (Some (element_near_bottom\<lparr>rotationAngle := NaN\<rparr>)) = Inr False"
  using isLinkBelowLimit_NaN [of "element_near_bottom\<lparr>y := NaN\<rparr>" spec_constants]
    isLinkBelowLimit_NaN [of "element_near_bottom\<lparr>rotationAngle := NaN\<rparr>" spec_constants]
  by (simp add: hasLinkUrl_def element_near_bottom_def)

text \<open>
  Claim C9. For an element with a non-empty link url, \<^verbatim>\<open>isLinkBelowLimit\<close> returns
  \<^verbatim>\<open>Boolean\<close> of the first corner Y-value, in the order upper-left, upper-right,
  bottom-right, bottom-left, that exceeds the limit after the danger-zone height is added.
  Consequently, if that first corner is exactly 0, the function returns \<^verbatim>\<open>false\<close> although
  a corner exceeds the limit. The second conjunct spells the search out: the corner at the
  least index that exceeds decides, and the result is \<^verbatim>\<open>true\<close> unless that corner is 0.
\<close>

theorem isLinkBelowLimit_first_corner:
  assumes "hasLinkUrl element"
  shows "isLinkBelowLimit c (Some element) =
           Inr (Boolean (find (exceedsLimit c) (getYCoordinatesByAngle element))) \<and>
         (\<forall>i < length (getYCoordinatesByAngle element).
            exceedsLimit c (getYCoordinatesByAngle element ! i) \<and>
            (\<forall>j < i. \<not> exceedsLimit c (getYCoordinatesByAngle element ! j)) \<longrightarrow>
            isLinkBelowLimit c (Some element) =
              Inr (getYCoordinatesByAngle element ! i \<noteq> Fin 0)) \<and>
         (find (exceedsLimit c) (getYCoordinatesByAngle element) = Some (Fin 0) \<longrightarrow>
            isLinkBelowLimit c (Some element) = Inr False \<and>
            (\<exists>cornerY \<in> set (getYCoordinatesByAngle element). exceedsLimit c cornerY))"
proof -
  let ?points = "getYCoordinatesByAngle element"
  have result: "isLinkBelowLimit c (Some element) = Inr (Boolean (find (exceedsLimit c) ?points))"
    using assms by (simp add: isLinkBelowLimit_Some)
  have first: "isLinkBelowLimit c (Some element) = Inr (?points ! i \<noteq> Fin 0)"
    if "i < length ?points" "exceedsLimit c (?points ! i)"
      "\<forall>j < i. \<not> exceedsLimit c (?points ! j)" for i
  proof -
    from that have "find (exceedsLimit c) ?points = Some (?points ! i)"
      unfolding find_Some_iff by blast
    with result Boolean_exceeding [OF that(2)] show ?thesis
      by simp
  qed
  have zero: "isLinkBelowLimit c (Some element) = Inr False \<and>
      (\<exists>cornerY \<in> set ?points. exceedsLimit c cornerY)"
    if "find (exceedsLimit c) ?points = Some (Fin 0)"
  proof -
    from that have "exceedsLimit c (Fin 0)" "Fin 0 \<in> set ?points"
      by (auto simp: find_Some_iff)
    with result that show ?thesis by auto
  qed
  from result first zero show ?thesis
    by blast
qed

theorem isLinkBelowLimit_first_corner_witness:
  "hasLinkUrl element_at_origin \<and>
   find (exceedsLimit degenerate_constants) (getYCoordinatesByAngle element_at_origin) =
     Some (Fin 0) \<and>
   isLinkBelowLimit degenerate_constants (Some element_at_origin) = Inr False \<and>
   hasLinkUrl element_near_bottom \<and>
   (0 :: nat) < length (getYCoordinatesByAngle element_near_bottom) \<and>
   exceedsLimit spec_constants (getYCoordinatesByAngle element_near_bottom ! 0) \<and>
   getYCoordinatesByAngle element_near_bottom ! 0 = Fin 650 \<and>
   isLinkBelowLimit spec_constants (Some element_near_bottom) = Inr True"
  using isLinkBelowLimit_first_corner [of element_at_origin degenerate_constants]
    isLinkBelowLimit_first_corner [of element_near_bottom spec_constants]
  by (simp add: scenario_defs)


end
